theory Spec2Isabelle
  imports Complex_Main
begin

section \<open>Python values used by agent\_http.py\<close>

text \<open>
  Everything the agent sends to and receives from the remote platform is a value that
  Python's JSON decoder can produce. A JSON object is kept as an association list; lookups
  take the first entry for a key. Python's unbounded integers are \<open>int\<close>, strings are
  character lists with one element per character.
\<close>

datatype json =
    JNull
  | JBool bool
  | JInt int
  | JFloat real
  | JStr string
  | JArr "json list"
  | JObj "(string \<times> json) list"

type_synonym dict = "(string \<times> json) list"

text \<open>
  An exception is its class together with the text that \<open>str(e)\<close> yields. Only
  instances of \<open>Exception\<close> are values of this type: they are what the clauses
  \<open>except Exception\<close> of the source catch. \<open>KeyboardInterrupt\<close> derives from
  \<open>BaseException\<close> alone and appears in the model of the main loop only, where the
  source handles it.
\<close>

datatype exn_class =
    Exception
  | KeyError
  | TypeError
  | AttributeError
  | HTTPStatusError
  | OtherError string

datatype exn = Exn exn_class string

fun exn_str :: "exn \<Rightarrow> string" where
  "exn_str (Exn c msg) = msg"

definition quote :: "string \<Rightarrow> string" where
  "quote s = CHR 0x27 # s @ [CHR 0x27]"

fun type_name :: "json \<Rightarrow> string" where
  "type_name JNull = ''NoneType''"
| "type_name (JBool b) = ''bool''"
| "type_name (JInt i) = ''int''"
| "type_name (JFloat x) = ''float''"
| "type_name (JStr s) = ''str''"
| "type_name (JArr xs) = ''list''"
| "type_name (JObj kvs) = ''dict''"

text \<open>
  \<open>str(v)\<close>: a string is its own text; for every other value \<open>str\<close> is \<open>repr\<close>,
  which is Python's and is taken as the parameter \<open>rp\<close>.
\<close>

fun py_str :: "(json \<Rightarrow> string) \<Rightarrow> json \<Rightarrow> string" where
  "py_str rp (JStr s) = s"
| "py_str rp v = rp v"

text \<open>\<open>k in s\<close> for strings: \<open>k\<close> occurs in \<open>s\<close> as a contiguous run.\<close>

fun substring :: "string \<Rightarrow> string \<Rightarrow> bool" where
  "substring k [] = (k = [])"
| "substring k (c # s) = (take (length k) (c # s) = k \<or> substring k s)"

text \<open>\<open>k in v\<close> for a string \<open>k\<close>; the texts of the type errors are CPython's.\<close>

fun py_in :: "string \<Rightarrow> json \<Rightarrow> exn + bool" where
  "py_in k (JObj kvs) = Inr (k \<in> set (map fst kvs))"
| "py_in k (JArr xs) = Inr (JStr k \<in> set xs)"
| "py_in k (JStr s) = Inr (substring k s)"
| "py_in k v =
     Inl (Exn TypeError (''argument of type '' @ quote (type_name v) @ '' is not iterable''))"

text \<open>\<open>v[k]\<close> for a string \<open>k\<close>.\<close>

fun py_getitem :: "json \<Rightarrow> string \<Rightarrow> exn + json" where
  "py_getitem (JObj kvs) k =
     (case map_of kvs k of
        None \<Rightarrow> Inl (Exn KeyError (quote k))
      | Some v \<Rightarrow> Inr v)"
| "py_getitem (JArr xs) k =
     Inl (Exn TypeError ''list indices must be integers or slices, not str'')"
| "py_getitem (JStr s) k =
     Inl (Exn TypeError (''string indices must be integers, not '' @ quote ''str''))"
| "py_getitem v k =
     Inl (Exn TypeError (quote (type_name v) @ '' object is not subscriptable''))"

text \<open>\<open>v.get(k, d)\<close>: only a dict has the method.\<close>

fun py_get :: "json \<Rightarrow> string \<Rightarrow> json \<Rightarrow> exn + json" where
  "py_get (JObj kvs) k d = Inr (case map_of kvs k of None \<Rightarrow> d | Some v \<Rightarrow> v)"
| "py_get v k d =
     Inl (Exn AttributeError
            (quote (type_name v) @ '' object has no attribute '' @ quote ''get''))"

text \<open>
  \<open>s.upper()\<close> follows the Unicode case mapping. On a string of ASCII characters that
  mapping replaces each of the twenty-six lower-case letters by its capital and keeps every
  other character; \<open>upper_char\<close> is this replacement for one character. What the mapping
  does to a string with a character outside ASCII (it can even change the length) is
  Python's, and is taken from the environment: see \<open>upper\<close> below.
\<close>

definition is_ascii :: "char \<Rightarrow> bool" where
  "is_ascii c = ((of_char c :: nat) < 128)"

definition upper_char :: "char \<Rightarrow> char" where
  "upper_char c =
     (case map_of (zip ''abcdefghijklmnopqrstuvwxyz'' ''ABCDEFGHIJKLMNOPQRSTUVWXYZ'') c of
        None \<Rightarrow> c
      | Some u \<Rightarrow> u)"

text \<open>\<open>str(n)\<close> for an integer: decimal digits, with a minus sign below zero.\<close>

definition digit :: "nat \<Rightarrow> char" where
  "digit d = ''0123456789'' ! d"

fun digits :: "nat \<Rightarrow> string" where
  "digits n = (if n < 10 then [digit n] else digits (n div 10) @ [digit (n mod 10)])"

declare digits.simps [simp del]

definition str_int :: "int \<Rightarrow> string" where
  "str_int i = (if i < 0 then CHR ''-'' # digits (nat (- i)) else digits (nat i))"

text \<open>\<open>sep.join(xs)\<close>.\<close>

fun join :: "string \<Rightarrow> string list \<Rightarrow> string" where
  "join sep [] = []"
| "join sep [x] = x"
| "join sep (x # y # ys) = x @ sep @ join sep (y # ys)"


section \<open>Memory\<close>

record entry =
  action :: string
  result :: json
  timestamp :: string

text \<open>
  \<open>add_to_memory\<close> appends to the module-level list \<open>action_memory\<close> and pops index 0
  once the list is longer than 20. The list is passed in and returned; \<open>now\<close> is the text
  of \<open>datetime.now().isoformat()\<close> at the moment of the call.
\<close>

definition add_to_memory :: "string \<Rightarrow> string \<Rightarrow> json \<Rightarrow> entry list \<Rightarrow> entry list" where
  "add_to_memory now act res action_memory =
     (let appended = action_memory @ [\<lparr>action = act, result = res, timestamp = now\<rparr>]
      in if length appended > 20 then tl appended else appended)"

text \<open>\<open>xs[-5:]\<close>: the last five elements, or all of them when there are fewer.\<close>

definition last5 :: "'a list \<Rightarrow> 'a list" where
  "last5 xs = (if length xs \<le> 5 then xs else drop (length xs - 5) xs)"

definition render :: "(json \<Rightarrow> string) \<Rightarrow> entry \<Rightarrow> string" where
  "render rp a =
     ''['' @ timestamp a @ ''] '' @ action a @ '': '' @ take 80 (py_str rp (result a))"

definition get_memory_summary :: "(json \<Rightarrow> string) \<Rightarrow> entry list \<Rightarrow> string" where
  "get_memory_summary rp action_memory =
     (if action_memory = [] then ''No recent actions.''
      else join [CHR 0x0A] (map (render rp) (last5 action_memory)))"

text \<open>A run of \<open>add_to_memory\<close> calls, each with its clock reading, label and result.\<close>

fun add_all :: "(string \<times> string \<times> json) list \<Rightarrow> entry list \<Rightarrow> entry list" where
  "add_all [] action_memory = action_memory"
| "add_all ((now, act, res) # rest) action_memory =
     add_all rest (add_to_memory now act res action_memory)"

fun mk_entry :: "string \<times> string \<times> json \<Rightarrow> entry" where
  "mk_entry (now, act, res) = \<lparr>action = act, result = res, timestamp = now\<rparr>"


section \<open>HTTP A2A client\<close>

record client =
  http_url :: string
  address :: string
  token_id :: int
  private_key :: string
  message_id :: int
  agent_id :: string

text \<open>
  \<open>__init__\<close>. The attribute \<open>self.client\<close>, an \<open>httpx.AsyncClient\<close> with a timeout of
  30 seconds, is the transport; what it does is the field \<open>post\<close> of the environment below.
\<close>

definition BabylonA2AClient :: "string \<Rightarrow> string \<Rightarrow> int \<Rightarrow> string \<Rightarrow> client" where
  "BabylonA2AClient url addr tok key =
     \<lparr>http_url = url, address = addr, token_id = tok, private_key = key,
      message_id = 1, agent_id = ''11155111:'' @ str_int tok\<rparr>"

record request =
  req_url :: string
  req_json :: json
  req_headers :: "(string \<times> string) list"

text \<open>
  What \<open>client.post\<close> hands back: the status code, the text that \<open>raise_for_status\<close>
  puts into its \<open>HTTPStatusError\<close> for this response, and what \<open>response.json()\<close> does
  (it raises on a body that is not JSON).
\<close>

record response =
  status_code :: int
  status_text :: string
  json_body :: "exn + json"

text \<open>
  The surroundings of the program, all of them library or remote behaviour:
  \<^item> \<open>post posted req\<close>: the outcome of \<open>await self.client.post(...)\<close> for the request
    \<open>req\<close> when \<open>posted\<close> holds the requests posted before; it raises (connection
    failure, timeout) or returns a response;
  \<^item> \<open>repr\<close>: Python's \<open>repr\<close> on decoded JSON values;
  \<^item> \<open>str_upper\<close>: Python's \<open>str.upper\<close> on strings that hold a character outside
    ASCII;
  \<^item> \<open>dumps\<close>: \<open>json.dumps\<close>, into a type \<open>'t\<close> of JSON texts;
  \<^item> \<open>clock\<close>: the text of \<open>datetime.now().isoformat()\<close>.
\<close>

record 't env =
  post :: "request list \<Rightarrow> request \<Rightarrow> exn + response"
  repr :: "json \<Rightarrow> string"
  str_upper :: "string \<Rightarrow> string"
  dumps :: "json \<Rightarrow> 't"
  clock :: string

text \<open>\<open>s.upper()\<close> for every string.\<close>

definition upper :: "'t env \<Rightarrow> string \<Rightarrow> string" where
  "upper e s = (if list_all is_ascii s then map upper_char s else str_upper e s)"

definition is_success :: "response \<Rightarrow> bool" where
  "is_success resp = (200 \<le> status_code resp \<and> status_code resp \<le> 299)"

text \<open>The local variables \<open>message\<close> and \<open>headers\<close> of \<open>call\<close>.\<close>

definition message :: "string \<Rightarrow> dict option \<Rightarrow> int \<Rightarrow> json" where
  "message method params request_id =
     JObj [(''jsonrpc'', JStr ''2.0''),
           (''method'', JStr method),
           (''params'', JObj (case params of None \<Rightarrow> [] | Some d \<Rightarrow> d)),
           (''id'', JInt request_id)]"

definition headers :: "client \<Rightarrow> (string \<times> string) list" where
  "headers self =
     [(''Content-Type'', ''application/json''),
      (''x-agent-id'', agent_id self),
      (''x-agent-address'', address self),
      (''x-agent-token-id'', str_int (token_id self))]"

definition call_request :: "client \<Rightarrow> string \<Rightarrow> dict option \<Rightarrow> request" where
  "call_request self method params =
     \<lparr>req_url = http_url self,
      req_json = message method params (message_id self),
      req_headers = headers self\<rparr>"

text \<open>
  The part of \<open>call\<close> after the post: \<open>raise_for_status\<close>, \<open>response.json()\<close>, the
  test for \<open>'error'\<close> and the final subscript.
\<close>

definition decode :: "(json \<Rightarrow> string) \<Rightarrow> response \<Rightarrow> exn + json" where
  "decode rp resp =
     (if \<not> is_success resp then Inl (Exn HTTPStatusError (status_text resp))
      else case json_body resp of
             Inl ex \<Rightarrow> Inl ex
           | Inr body \<Rightarrow>
               (case py_in ''error'' body of
                  Inl ex \<Rightarrow> Inl ex
                | Inr True \<Rightarrow>
                    (case py_getitem body ''error'' of
                       Inl ex \<Rightarrow> Inl ex
                     | Inr err \<Rightarrow>
                         (case py_getitem err ''message'' of
                            Inl ex \<Rightarrow> Inl ex
                          | Inr m \<Rightarrow> Inl (Exn Exception (''A2A Error: '' @ py_str rp m))))
                | Inr False \<Rightarrow> py_getitem body ''result''))"

text \<open>
  \<open>call\<close> returns what the Python returns or raises, the client with its counter advanced,
  and the list of posted requests with this one added.
\<close>

definition call ::
  "'t env \<Rightarrow> client \<Rightarrow> request list \<Rightarrow> string \<Rightarrow> dict option
     \<Rightarrow> (exn + json) \<times> client \<times> request list" where
  "call e self posted method params =
     (let req = call_request self method params;
          self' = self\<lparr>message_id := message_id self + 1\<rparr>
      in ((case post e posted req of
             Inl ex \<Rightarrow> Inl ex
           | Inr resp \<Rightarrow> decode (repr e) resp),
          self', posted @ [req]))"

text \<open>Calls made one after the other on one client.\<close>

fun call_many ::
  "'t env \<Rightarrow> (string \<times> dict option) list \<Rightarrow> client \<Rightarrow> request list
     \<Rightarrow> client \<times> request list" where
  "call_many e [] self posted = (self, posted)"
| "call_many e ((method, params) # rest) self posted =
     (case call e self posted method params of
        (r, self', posted') \<Rightarrow> call_many e rest self' posted')"

definition request_id :: "request \<Rightarrow> exn + json" where
  "request_id req = py_getitem (req_json req) ''id''"

definition request_params :: "request \<Rightarrow> exn + json" where
  "request_params req = py_getitem (req_json req) ''params''"

definition request_method :: "request \<Rightarrow> exn + json" where
  "request_method req = py_getitem (req_json req) ''method''"


section \<open>Tools\<close>

text \<open>
  The module-level state the tools work on: the client bound to \<open>a2a_client\<close> (\<open>main\<close>
  binds it before the first tick, and the tools run inside ticks), the list
  \<open>action_memory\<close>, and the list of posted requests.
\<close>

record state =
  a2a_client :: client
  action_memory :: "entry list"
  sent :: "request list"

definition client_call ::
  "'t env \<Rightarrow> state \<Rightarrow> string \<Rightarrow> dict option \<Rightarrow> (exn + json) \<times> state" where
  "client_call e s method params =
     (case call e (a2a_client s) (sent s) method params of
        (r, self', posted') \<Rightarrow> (r, s\<lparr>a2a_client := self', sent := posted'\<rparr>))"

text \<open>
  Every tool is \<open>try: ... return json.dumps(payload)\<close> followed by
  \<open>except Exception as e: return json.dumps({'error': str(e)})\<close>. The functions
  \<open>*_try\<close> are the bodies of the \<open>try\<close> blocks up to the payload.
\<close>

definition except_Exception :: "'t env \<Rightarrow> (exn + json) \<times> state \<Rightarrow> 't \<times> state" where
  "except_Exception e r =
     (case r of
        (Inl ex, s) \<Rightarrow> (dumps e (JObj [(''error'', JStr (exn_str ex))]), s)
      | (Inr payload, s) \<Rightarrow> (dumps e payload, s))"



definition get_portfolio_try :: "'t env \<Rightarrow> state \<Rightarrow> (exn + json) \<times> state" where
  "get_portfolio_try e s =
     (case client_call e s ''a2a.getBalance'' (Some []) of
        (Inl ex, s1) \<Rightarrow> (Inl ex, s1)
      | (Inr balance, s1) \<Rightarrow>
          (case client_call e s1 ''a2a.getPositions''
                  (Some [(''userId'', JStr (agent_id (a2a_client s1)))]) of
             (Inl ex, s2) \<Rightarrow> (Inl ex, s2)
           | (Inr positions, s2) \<Rightarrow>
               (case py_get balance ''balance'' (JInt 0) of
                  Inl ex \<Rightarrow> (Inl ex, s2)
                | Inr b \<Rightarrow> (Inr (JObj [(''balance'', b), (''positions'', positions)]), s2))))"

definition get_portfolio :: "'t env \<Rightarrow> state \<Rightarrow> 't \<times> state" where
  "get_portfolio e s = except_Exception e (get_portfolio_try e s)"

definition buy_shares_try ::
  "'t env \<Rightarrow> string \<Rightarrow> string \<Rightarrow> real \<Rightarrow> state \<Rightarrow> (exn + json) \<times> state" where
  "buy_shares_try e market_id outcome amount s =
     (case client_call e s ''a2a.buyShares''
             (Some [(''marketId'', JStr market_id),
                    (''outcome'', JStr (upper e outcome)),
                    (''amount'', JFloat amount)]) of
        (Inl ex, s1) \<Rightarrow> (Inl ex, s1)
      | (Inr res, s1) \<Rightarrow>
          (Inr res,
           s1\<lparr>action_memory :=
                 add_to_memory (clock e) (''BUY_'' @ upper e outcome) res (action_memory s1)\<rparr>))"

definition buy_shares :: "'t env \<Rightarrow> string \<Rightarrow> string \<Rightarrow> real \<Rightarrow> state \<Rightarrow> 't \<times> state" where
  "buy_shares e market_id outcome amount s =
     except_Exception e (buy_shares_try e market_id outcome amount s)"

definition create_post_try :: "'t env \<Rightarrow> string \<Rightarrow> state \<Rightarrow> (exn + json) \<times> state" where
  "create_post_try e content s =
     (case client_call e s ''a2a.createPost''
             (Some [(''content'', JStr (take 280 content)), (''type'', JStr ''post'')]) of
        (Inl ex, s1) \<Rightarrow> (Inl ex, s1)
      | (Inr res, s1) \<Rightarrow>
          (Inr res,
           s1\<lparr>action_memory :=
                 add_to_memory (clock e) ''CREATE_POST'' res (action_memory s1)\<rparr>))"

definition create_post :: "'t env \<Rightarrow> string \<Rightarrow> state \<Rightarrow> 't \<times> state" where
  "create_post e content s = except_Exception e (create_post_try e content s)"




section \<open>Main loop\<close>

text \<open>
  Phase 4 of \<open>main\<close>. What the loop prints and when it sleeps is kept as a trace of
  events; the banners are events without their decoration.
\<close>

datatype event =
    PrintTick int
  | PrintComplete int string
  | PrintError int string
  | PrintSleeping int
  | Sleep int
  | PrintShutdown
  | Close
  | PrintGoodbye

record loop_state =
  tick_count :: int
  trace :: "event list"

text \<open>
  The two places where a tick waits. \<open>babylon_agent.decide\<close> is the language model's turn:
  it returns a decision text, raises an \<open>Exception\<close>, or is cut short by
  \<open>KeyboardInterrupt\<close>. \<open>asyncio.sleep\<close> returns or is cut short likewise.
\<close>

datatype decide_outcome = Returns string | Raises exn | DecideInterrupted

datatype sleep_outcome = Wakes | SleepInterrupted

text \<open>
  One pass through the body of \<open>while True\<close>. \<open>Inr\<close> is the state at the end of the
  body, from where the loop goes round again; \<open>Inl\<close> is the state in which
  \<open>KeyboardInterrupt\<close> leaves the loop.
\<close>

definition tick ::
  "int \<Rightarrow> decide_outcome \<times> sleep_outcome \<Rightarrow> loop_state \<Rightarrow> loop_state + loop_state" where
  "tick tick_interval w st =
     (let n = tick_count st + 1;
          st1 = st\<lparr>tick_count := n, trace := trace st @ [PrintTick n]\<rparr>
      in case fst w of
           DecideInterrupted \<Rightarrow> Inl st1
         | d \<Rightarrow>
             (let st2 = st1\<lparr>trace := trace st1 @
                          [case d of
                             Raises ex \<Rightarrow> PrintError n (exn_str ex)
                           | Returns decision \<Rightarrow> PrintComplete n (take 100 decision)]\<rparr>;
                  st3 = st2\<lparr>trace := trace st2 @ [PrintSleeping tick_interval,
                                                    Sleep tick_interval]\<rparr>
              in case snd w of
                   SleepInterrupted \<Rightarrow> Inl st3
                 | Wakes \<Rightarrow> Inr st3))"

text \<open>
  The loop over what the first ticks meet. \<open>Inr\<close>: all of them are done and the loop is
  about to start the next tick. \<open>Inl\<close>: the loop was left.
\<close>

fun main_loop ::
  "int \<Rightarrow> (decide_outcome \<times> sleep_outcome) list \<Rightarrow> loop_state \<Rightarrow> loop_state + loop_state" where
  "main_loop tick_interval [] st = Inr st"
| "main_loop tick_interval (w # ws) st =
     (case tick tick_interval w st of
        Inl st' \<Rightarrow> Inl st'
      | Inr st' \<Rightarrow> main_loop tick_interval ws st')"

text \<open>
  Phase 4 from \<open>tick_count = 0\<close>, with the handler of \<open>KeyboardInterrupt\<close> around the
  loop.
\<close>

definition main_phase4 ::
  "int \<Rightarrow> (decide_outcome \<times> sleep_outcome) list \<Rightarrow> loop_state + loop_state" where
  "main_phase4 tick_interval ws =
     (case main_loop tick_interval ws \<lparr>tick_count = 0, trace = []\<rparr> of
        Inl st \<Rightarrow> Inl (st\<lparr>trace := trace st @ [PrintShutdown, Close, PrintGoodbye]\<rparr>)
      | Inr st \<Rightarrow> Inr st)"


section \<open>Notions used in the statements\<close>

text \<open>A decoded body has the field \<open>k\<close>: it is an object with the key \<open>k\<close>.\<close>

fun has_field :: "string \<Rightarrow> json \<Rightarrow> bool" where
  "has_field k (JObj kvs) = (k \<in> set (map fst kvs))"
| "has_field k v = False"

text \<open>The state a tick ends in, whichever way it ends.\<close>

definition after_tick :: "loop_state + loop_state \<Rightarrow> loop_state" where
  "after_tick r = (case r of Inl st \<Rightarrow> st | Inr st \<Rightarrow> st)"


section \<open>Example data\<close>

definition example_adds :: "nat \<Rightarrow> (string \<times> string \<times> json) list" where
  "example_adds n = map (\<lambda>i. (str_int (int i), ''CREATE_POST'', JInt (int i))) [1..<Suc n]"

definition example_memory :: "entry list" where
  "example_memory = add_all (example_adds 7) []"

definition example_client :: client where
  "example_client = BabylonA2AClient ''http://localhost:3000/api/a2a'' ''0xA11CE'' 4242 ''k''"

definition example_state :: state where
  "example_state = \<lparr>a2a_client = example_client, action_memory = [], sent = []\<rparr>"

text \<open>
  A remote that gives the same response to every request. JSON texts are read as the
  values they denote. The examples are ASCII text, for which \<open>str_upper\<close> is not
  consulted.
\<close>

definition reply_env :: "response \<Rightarrow> json env" where
  "reply_env resp =
     \<lparr>post = (\<lambda>posted req. Inr resp), repr = (\<lambda>v. ''{}''), str_upper = (\<lambda>s. s),
      dumps = (\<lambda>v. v),
      clock = ''2025-01-01T00:00:00''\<rparr>"

definition ok_response :: "json \<Rightarrow> response" where
  "ok_response body = \<lparr>status_code = 200, status_text = [], json_body = Inr body\<rparr>"


definition result_body :: json where
  "result_body = JObj [(''result'', JObj [(''balance'', JInt 100)])]"


definition two_line_result :: json where
  "two_line_result = JStr (''ok'' @ [CHR 0x0A] @ ''second line'')"

definition unavailable :: response where
  "unavailable =
     \<lparr>status_code = 503, status_text = ''Server error'',
      json_body = Inl (Exn (OtherError ''JSONDecodeError'') ''Expecting value'')\<rparr>"

definition list_body :: json where
  "list_body = JObj [(''result'', JArr [])]"

definition failing_run :: "(decide_outcome \<times> sleep_outcome) list" where
  "failing_run =
     [(Raises (Exn (OtherError ''RateLimitError'') ''rate limit''), Wakes),
      (Returns ''hold'', Wakes),
      (Raises (Exn Exception ''A2A Error: no such market''), Wakes)]"


section \<open>Properties of the memory\<close>

lemma add_to_memory_full:
  assumes "length m = 20"
  shows "add_to_memory now act res m
           = tl m @ [\<lparr>action = act, result = res, timestamp = now\<rparr>]"
  using assms by (cases m) (simp_all add: add_to_memory_def Let_def)

lemma add_to_memory_room:
  assumes "length m < 20"
  shows "add_to_memory now act res m
           = m @ [\<lparr>action = act, result = res, timestamp = now\<rparr>]"
  using assms by (simp add: add_to_memory_def Let_def)

lemma add_to_memory_step:
  "add_to_memory now act res m
     = (if length m < 20 then m else tl m) @ [mk_entry (now, act, res)]"
  by (cases m) (simp_all add: add_to_memory_def Let_def)

lemma add_to_memory_length:
  "length m \<le> 20 \<Longrightarrow> length (add_to_memory now act res m) \<le> 20"
  by (auto simp: add_to_memory_def Let_def)

lemma add_all_length: "length m \<le> 20 \<Longrightarrow> length (add_all xs m) \<le> 20"
  by (induction xs m rule: add_all.induct) (auto simp: add_to_memory_length)

lemma add_all_drop:
  "length m \<le> 20 \<Longrightarrow>
   add_all xs m = drop (length m + length xs - 20) (m @ map mk_entry xs)"
proof (induction xs m rule: add_all.induct)
  case (1 m)
  then show ?case by simp
next
  case (2 now act res rest m)
  let ?e = "\<lparr>action = act, result = res, timestamp = now\<rparr>"
  let ?m' = "add_to_memory now act res m"
  have l: "length ?m' \<le> 20"
    using 2 by (simp add: add_to_memory_length)
  have ih: "add_all rest ?m' = drop (length ?m' + length rest - 20) (?m' @ map mk_entry rest)"
    using 2(1)[OF l] .
  show ?case
  proof (cases "length m = 20")
    case True
    then have m': "?m' = tl m @ [?e]"
      by (rule add_to_memory_full)
    have "length ?m' = 20" using True m' by simp
    then have "add_all rest ?m' = drop (length rest) (tl m @ ?e # map mk_entry rest)"
      using ih m' by simp
    also have "\<dots> = drop (Suc (length rest)) (m @ ?e # map mk_entry rest)"
      using True by (cases m) simp_all
    finally show ?thesis using True by simp
  next
    case False
    then have m': "?m' = m @ [?e]" using 2(2)
      by (simp add: add_to_memory_room)
    show ?thesis using ih by (simp add: m')
  qed
qed

text \<open>
  C3. Whatever is added and however often, a memory of at most 20 entries (the empty one the
  module starts with, in particular) stays at 20 entries or fewer, and it holds the newest
  20 of everything it has had and been given, in the order of insertion. One call appends
  the new entry; from 20 entries on it drops the oldest one, and only that one.
\<close>

theorem action_memory_bounded_fifo:
  "length m \<le> 20 \<Longrightarrow>
     length (add_all xs m) \<le> 20
   \<and> add_all xs m = drop (length (m @ map mk_entry xs) - 20) (m @ map mk_entry xs)
   \<and> add_to_memory now act res m
       = (if length m < 20 then m else tl m) @ [mk_entry (now, act, res)]"
  using add_all_length [of m xs] add_all_drop [of m xs] add_to_memory_step [of now act res m]
  by simp

theorem action_memory_bounded_fifo_witness:
  "length ([] :: entry list) \<le> 20
   \<and> length (add_all (example_adds 21) []) \<le> 20
   \<and> add_all (example_adds 21) [] = map mk_entry (tl (example_adds 21))
   \<and> add_to_memory ''t'' ''CREATE_POST'' JNull [] = [mk_entry (''t'', ''CREATE_POST'', JNull)]"
  using action_memory_bounded_fifo [of "[]" "example_adds 21" "''t''" "''CREATE_POST''" JNull]
  by (simp add: example_adds_def drop_Suc map_tl)

lemma join_single_sep_count:
  "xs \<noteq> [] \<Longrightarrow> \<forall>x\<in>set xs. c \<notin> set x \<Longrightarrow> count_list (join [c] xs) c = length xs - 1"
  by (induction "[c]" xs rule: join.induct) (auto simp: count_list_0_iff)

lemma last5_eq: "last5 m = drop (length m - min 5 (length m)) m"
  by (simp add: last5_def min_def)

lemma last5_length: "length (last5 m) = min 5 (length m)"
  by (auto simp add: last5_def min_def)

lemma last5_last: "m \<noteq> [] \<Longrightarrow> last (last5 m) = last m"
  by (auto simp add: last5_def)

lemma last5_subset: "set (last5 m) \<subseteq> set m"
  by (auto simp add: last5_def dest: in_set_dropD)

text \<open>
  C9, as the code has it. On the empty memory the summary is the fixed text. On any other
  memory it is the renderings of the last \<open>min 5 size\<close> entries, oldest of them first and
  the newest entry of the memory last, joined by newlines; where no rendering holds a
  newline itself the summary has one line per entry. A rendering is the timestamp in brackets, the action, a
  colon and at most 80 characters of the result's text, and the summary of a single entry
  is the rendering of that entry.
\<close>

theorem get_memory_summary_renders_recent:
  "get_memory_summary rp [] = ''No recent actions.''
   \<and> (m \<noteq> [] \<longrightarrow>
        get_memory_summary rp m
          = join [CHR 0x0A] (map (render rp) (drop (length m - min 5 (length m)) m))
      \<and> length (drop (length m - min 5 (length m)) m) = min 5 (length m)
      \<and> last (drop (length m - min 5 (length m)) m) = last m)
   \<and> (m \<noteq> [] \<and> (\<forall>a\<in>set m. CHR 0x0A \<notin> set (render rp a)) \<longrightarrow>
        count_list (get_memory_summary rp m) (CHR 0x0A) = min 5 (length m) - 1)
   \<and> render rp a
        = ''['' @ timestamp a @ ''] '' @ action a @ '': '' @ take 80 (py_str rp (result a))
   \<and> length (take 80 (py_str rp (result a))) \<le> 80
   \<and> get_memory_summary rp [a] = render rp a"
proof -
  have one: "get_memory_summary rp [] = ''No recent actions.''"
    by (simp add: get_memory_summary_def)
  have two: "get_memory_summary rp m
          = join [CHR 0x0A] (map (render rp) (drop (length m - min 5 (length m)) m))
      \<and> length (drop (length m - min 5 (length m)) m) = min 5 (length m)
      \<and> last (drop (length m - min 5 (length m)) m) = last m" if "m \<noteq> []"
    using that last5_length [of m] last5_last [of m]
    by (simp add: get_memory_summary_def last5_eq)
  have three: "count_list (get_memory_summary rp m) (CHR 0x0A) = min 5 (length m) - 1"
    if ne: "m \<noteq> []" and nl: "\<forall>a\<in>set m. CHR 0x0A \<notin> set (render rp a)"
  proof -
    have "length (last5 m) \<noteq> 0" using ne by (simp add: last5_length)
    then have "last5 m \<noteq> []" by auto
    then have a: "map (render rp) (last5 m) \<noteq> []" by simp
    have b: "\<forall>x\<in>set (map (render rp) (last5 m)). CHR 0x0A \<notin> set x"
      using nl last5_subset [of m] by auto
    show ?thesis
      using join_single_sep_count [OF a b] ne
      by (simp add: get_memory_summary_def last5_length)
  qed
  have four: "get_memory_summary rp [a] = render rp a"
    by (simp add: get_memory_summary_def last5_def)
  show ?thesis
    using one two three four by (simp add: render_def)
qed

theorem get_memory_summary_renders_recent_witness:
  "example_memory \<noteq> []
   \<and> list_all (\<lambda>a. CHR 0x0A \<notin> set (render (\<lambda>v. ''{}'') a)) example_memory
   \<and> get_memory_summary (\<lambda>v. ''{}'') example_memory
       = ''[3] CREATE_POST: {}'' @ [CHR 0x0A] @ ''[4] CREATE_POST: {}'' @ [CHR 0x0A]
         @ ''[5] CREATE_POST: {}'' @ [CHR 0x0A] @ ''[6] CREATE_POST: {}'' @ [CHR 0x0A]
         @ ''[7] CREATE_POST: {}''
   \<and> count_list (get_memory_summary (\<lambda>v. ''{}'') example_memory) (CHR 0x0A) = 4
   \<and> get_memory_summary (\<lambda>v. ''{}'') [mk_entry (''t'', ''BUY_YES'', JStr ''ok'')]
       = ''[t] BUY_YES: ok''"
  using get_memory_summary_renders_recent
          [of "\<lambda>v. ''{}''" example_memory "mk_entry (''t'', ''BUY_YES'', JStr ''ok'')"]
  by (simp add: example_memory_def example_adds_def upt_rec add_to_memory_def render_def
        str_int_def digits.simps digit_def)

text \<open>
  C9, as it is stated, fails where a rendering holds a newline. The remote answers
  \<open>a2a.createPost\<close> with a result that is a text of two lines; \<open>create_post\<close> records
  it, and the summary of this single entry has two lines, not one.
\<close>

theorem get_memory_summary_newline_counterexample:
  "action_memory (snd (create_post (reply_env (ok_response (JObj [(''result'', two_line_result)])))
                         ''hello'' example_state))
     = [\<lparr>action = ''CREATE_POST'', result = two_line_result,
         timestamp = ''2025-01-01T00:00:00''\<rparr>]
   \<and> get_memory_summary (\<lambda>v. ''{}'')
         [\<lparr>action = ''CREATE_POST'', result = two_line_result,
           timestamp = ''2025-01-01T00:00:00''\<rparr>]
       = ''[2025-01-01T00:00:00] CREATE_POST: ok'' @ [CHR 0x0A] @ ''second line''
   \<and> count_list
         (get_memory_summary (\<lambda>v. ''{}'')
            [\<lparr>action = ''CREATE_POST'', result = two_line_result,
              timestamp = ''2025-01-01T00:00:00''\<rparr>])
         (CHR 0x0A) = 1"
  by (simp add: reply_env_def ok_response_def is_success_def example_state_def
        create_post_def except_Exception_def create_post_try_def client_call_def call_def
        decode_def Let_def add_to_memory_def get_memory_summary_def last5_def render_def
        two_line_result_def)


section \<open>Properties of the client\<close>


lemma call_client: 
  "fst (snd (call e self posted method params)) = self\<lparr>message_id := message_id self + 1\<rparr>"
  by (simp add: call_def Let_def)

lemma call_posted:
  "snd (snd (call e self posted method params)) = posted @ [call_request self method params]"
  by (simp add: call_def Let_def)

lemma call_many_Cons:
  "call_many e ((method, params) # rest) self posted
     = call_many e rest (self\<lparr>message_id := message_id self + 1\<rparr>)
         (posted @ [call_request self method params])"
  by (simp add: call_def Let_def)

lemma request_id_call_request:
  "request_id (call_request self method params) = Inr (JInt (message_id self))"
  by (simp add: request_id_def call_request_def message_def)

lemma headers_call_request:
  "req_headers (call_request self method params) = headers self"
  by (simp add: call_request_def)

lemma headers_counter: "headers (self\<lparr>message_id := k\<rparr>) = headers self"
  by (simp add: headers_def)

lemma call_many_client:
  "fst (call_many e ms self posted) = self\<lparr>message_id := message_id self + int (length ms)\<rparr>"
proof (induction ms arbitrary: self posted)
  case Nil
  then show ?case by simp
next
  case (Cons m rest)
  obtain name ps where m: "m = (name, ps)" by (cases m)
  show ?case
    unfolding m call_many_Cons Cons.IH by (simp add: add.assoc)
qed

lemma ids_shift:
  "map (\<lambda>k. Inr (JInt (i + 1 + int k)) :: exn + json) [0..<n]
     = map (\<lambda>k. Inr (JInt (i + int k))) [Suc 0..<Suc n]"
proof -
  have "map (\<lambda>k. Inr (JInt (i + int k)) :: exn + json) [Suc 0..<Suc n]
      = map (\<lambda>k. Inr (JInt (i + int k))) (map Suc [0..<n])"
    by (simp only: map_Suc_upt)
  also have "\<dots> = map (\<lambda>k. Inr (JInt (i + 1 + int k))) [0..<n]"
    by (simp add: add.assoc add.commute)
  finally show ?thesis by simp
qed

lemma call_many_ids:
  "map request_id (snd (call_many e ms self posted))
     = map request_id posted
       @ map (\<lambda>k. Inr (JInt (message_id self + int k))) [0..<length ms]"
proof (induction ms arbitrary: self posted)
  case Nil
  then show ?case by simp
next
  case (Cons m rest)
  obtain name ps where m: "m = (name, ps)" by (cases m)
  have "[0..<length (m # rest)] = 0 # [Suc 0..<Suc (length rest)]"
    by (simp add: upt_conv_Cons del: upt_Suc)
  then show ?case
    unfolding m call_many_Cons Cons.IH
    by (simp add: request_id_call_request ids_shift del: upt_Suc)
qed

lemma call_many_headers:
  "map req_headers (snd (call_many e ms self posted))
     = map req_headers posted @ replicate (length ms) (headers self)"
proof (induction ms arbitrary: self posted)
  case Nil
  then show ?case by simp
next
  case (Cons m rest)
  obtain name ps where m: "m = (name, ps)" by (cases m)
  show ?case
    unfolding m call_many_Cons Cons.IH
    by (simp add: headers_call_request headers_counter replicate_append_same)
qed

lemma call_many_length:
  "length (snd (call_many e ms self posted)) = length posted + length ms"
proof (induction ms arbitrary: self posted)
  case Nil
  then show ?case by simp
next
  case (Cons m rest)
  obtain name ps where m: "m = (name, ps)" by (cases m)
  show ?case
    unfolding m call_many_Cons Cons.IH by simp
qed

lemma ids_from_one:
  "map (\<lambda>k. Inr (JInt (1 + int k)) :: exn + json) [0..<n] = map (\<lambda>k. Inr (JInt (int k))) [1..<Suc n]"
  using ids_shift [of 0 n] by simp

lemma distinct_ids: "distinct (map (\<lambda>k. Inr (JInt (int k)) :: exn + json) [1..<Suc n])"
  by (simp add: distinct_map inj_on_def)

text \<open>
  C2. The calls made on a freshly constructed client, whatever their methods, parameters
  and outcomes, carry the request ids 1, 2, ..., n in this order, so no id occurs twice;
  afterwards the counter stands at n + 1. Each single call puts the current counter into
  its envelope and advances the counter by exactly one.
\<close>

theorem request_ids_count_up:
  "map request_id (snd (call_many e ms (BabylonA2AClient url addr tok key) []))
     = map (\<lambda>k. Inr (JInt (int k))) [1..<Suc (length ms)]
   \<and> distinct (map request_id (snd (call_many e ms (BabylonA2AClient url addr tok key) [])))
   \<and> message_id (fst (call_many e ms (BabylonA2AClient url addr tok key) []))
       = 1 + int (length ms)
   \<and> length (snd (call_many e ms (BabylonA2AClient url addr tok key) [])) = length ms
   \<and> message_id (fst (snd (call e self posted method params))) = message_id self + 1
   \<and> request_id (last (snd (snd (call e self posted method params))))
       = Inr (JInt (message_id self))"
proof -
  let ?c = "BabylonA2AClient url addr tok key"
  have start: "message_id ?c = 1" by (simp add: BabylonA2AClient_def)
  have ids: "map request_id (snd (call_many e ms ?c []))
     = map (\<lambda>k. Inr (JInt (int k))) [1..<Suc (length ms)]"
    using call_many_ids [of e ms ?c "[]"] ids_from_one [of "length ms"] start by simp
  have len: "length (snd (call_many e ms ?c [])) = length ms"
    by (simp add: call_many_length)
  show ?thesis
    using ids len distinct_ids [of "length ms"] start
    by (simp add: call_many_client call_client call_posted request_id_call_request)
qed

text \<open>
  C4. Every request posted by a client carries the same four headers and no others: the
  content type, \<open>x-agent-id\<close> with the chain id 11155111, a colon and the token id,
  \<open>x-agent-address\<close> with the address given at construction, and \<open>x-agent-token-id\<close>
  with the decimal text of the token id.
\<close>

theorem call_attaches_four_headers:
  "map req_headers (snd (call_many e ms (BabylonA2AClient url addr tok key) []))
     = replicate (length ms)
         [(''Content-Type'', ''application/json''),
          (''x-agent-id'', ''11155111:'' @ str_int tok),
          (''x-agent-address'', addr),
          (''x-agent-token-id'', str_int tok)]
   \<and> req_headers (last (snd (snd (call e self posted method params))))
       = [(''Content-Type'', ''application/json''),
          (''x-agent-id'', agent_id self),
          (''x-agent-address'', address self),
          (''x-agent-token-id'', str_int (token_id self))]"
  by (simp add: call_many_headers call_posted headers_call_request)
     (simp add: headers_def BabylonA2AClient_def)

theorem request_ids_count_up_witness:
  "map request_id
     (snd (call_many (reply_env unavailable)
             [(''a2a.getBalance'', Some []), (''a2a.getFeed'', None), (''a2a.getBalance'', Some [])]
             (BabylonA2AClient ''http://localhost:3000/api/a2a'' ''0xA11CE'' 4242 ''k'') []))
     = [Inr (JInt 1), Inr (JInt 2), Inr (JInt 3)]
   \<and> message_id
        (fst (call_many (reply_env unavailable)
                [(''a2a.getBalance'', Some []), (''a2a.getFeed'', None), (''a2a.getBalance'', Some [])]
                (BabylonA2AClient ''http://localhost:3000/api/a2a'' ''0xA11CE'' 4242 ''k'') []))
       = 4"
  using request_ids_count_up
          [of "reply_env unavailable"
              "[(''a2a.getBalance'', Some []), (''a2a.getFeed'', None), (''a2a.getBalance'', Some [])]"
              "''http://localhost:3000/api/a2a''" "''0xA11CE''" 4242 "''k''"]
  by (simp add: upt_rec)

theorem call_attaches_four_headers_witness:
  "map req_headers
     (snd (call_many (reply_env (ok_response result_body))
             [(''a2a.getBalance'', Some []), (''a2a.getFeed'', None)]
             (BabylonA2AClient ''http://localhost:3000/api/a2a'' ''0xA11CE'' 4242 ''k'') []))
     = [[(''Content-Type'', ''application/json''), (''x-agent-id'', ''11155111:4242''),
         (''x-agent-address'', ''0xA11CE''), (''x-agent-token-id'', ''4242'')],
        [(''Content-Type'', ''application/json''), (''x-agent-id'', ''11155111:4242''),
         (''x-agent-address'', ''0xA11CE''), (''x-agent-token-id'', ''4242'')]]"
  using call_attaches_four_headers
          [of "reply_env (ok_response result_body)"
              "[(''a2a.getBalance'', Some []), (''a2a.getFeed'', None)]"
              "''http://localhost:3000/api/a2a''" "''0xA11CE''" 4242 "''k''"]
  by (simp add: str_int_def digits.simps digit_def)







lemma py_getitem_has_field:
  "has_field k v \<Longrightarrow> \<exists>x. py_getitem v k = Inr x"
  by (cases v) (auto simp: map_of_eq_None_iff split: option.splits)










section \<open>Properties of the tools\<close>



lemma client_call_snd:
  "snd (client_call e s name ps)
     = s\<lparr>a2a_client := (a2a_client s)\<lparr>message_id := message_id (a2a_client s) + 1\<rparr>,
         sent := sent s @ [call_request (a2a_client s) name ps]\<rparr>"
  by (simp add: client_call_def split_beta call_client call_posted)


lemma except_Exception_Inr:
  "fst r = Inr payload \<Longrightarrow> fst (except_Exception e r) = dumps e payload"
  by (cases r) (simp add: except_Exception_def)

lemma except_Exception_snd: "snd (except_Exception e r) = snd r"
  by (cases r) (simp add: except_Exception_def split: sum.splits)







lemma lower_codes:
  "c \<in> set ''abcdefghijklmnopqrstuvwxyz''
     \<longleftrightarrow> 97 \<le> (of_char c :: nat) \<and> (of_char c :: nat) \<le> 122"
proof
  assume "c \<in> set ''abcdefghijklmnopqrstuvwxyz''"
  then show "97 \<le> (of_char c :: nat) \<and> (of_char c :: nat) \<le> 122"
    by auto
next
  assume a: "97 \<le> (of_char c :: nat) \<and> (of_char c :: nat) \<le> 122"
  have codes: "map of_char ''abcdefghijklmnopqrstuvwxyz'' = [97..<123::nat]"
    by (simp add: upt_rec)
  have "(of_char c :: nat) \<in> {97..<123}" using a by simp
  then have "(of_char c :: nat) \<in> set (map of_char ''abcdefghijklmnopqrstuvwxyz'')"
    unfolding codes set_upt .
  then obtain x where x: "x \<in> set ''abcdefghijklmnopqrstuvwxyz''"
      "(of_char c :: nat) = of_char x"
    unfolding set_map by blast
  from x(2) have "c = x" by simp
  with x(1) show "c \<in> set ''abcdefghijklmnopqrstuvwxyz''" by simp
qed

lemma upper_char_code:
  "(of_char (upper_char c) :: nat)
     = (if 97 \<le> (of_char c :: nat) \<and> (of_char c :: nat) \<le> 122 then of_char c - 32
        else of_char c)"
proof (cases "c \<in> set ''abcdefghijklmnopqrstuvwxyz''")
  case True
  then show ?thesis by (auto simp: upper_char_def)
next
  case False
  then have "upper_char c = c" by (simp add: upper_char_def)
  moreover have "\<not> (97 \<le> (of_char c :: nat) \<and> (of_char c :: nat) \<le> 122)"
    using False unfolding lower_codes .
  ultimately show ?thesis by auto
qed

lemma upper_char_ascii: "is_ascii c \<Longrightarrow> is_ascii (upper_char c)"
  unfolding is_ascii_def upper_char_code by (simp split: if_splits) arith

lemma upper_char_not_lower: "upper_char c \<notin> set ''abcdefghijklmnopqrstuvwxyz''"
  by (simp add: upper_char_def)

lemma upper_char_idem: "upper_char (upper_char c) = upper_char c"
  by (simp add: upper_char_def)

lemma upper_ascii: "list_all is_ascii s \<Longrightarrow> upper e s = map upper_char s"
  by (simp add: upper_def)

lemma upper_ascii_stays: "list_all is_ascii s \<Longrightarrow> list_all is_ascii (upper e s)"
  by (simp add: upper_ascii list_all_iff upper_char_ascii)

lemma upper_idem: "list_all is_ascii s \<Longrightarrow> upper e (upper e s) = upper e s"
  using upper_ascii_stays [of s e] by (simp add: upper_ascii upper_char_idem)

lemma upper_no_lower:
  "list_all is_ascii s \<Longrightarrow> set (upper e s) \<inter> set ''abcdefghijklmnopqrstuvwxyz'' = {}"
  using upper_char_not_lower by (auto simp: upper_ascii simp del: set_simps list.set)

lemma upper_codes:
  "list_all is_ascii s \<Longrightarrow>
   map of_char (upper e s)
     = map (\<lambda>c. if 97 \<le> (of_char c :: nat) \<and> (of_char c :: nat) \<le> 122
                 then of_char c - 32 else (of_char c :: nat)) s"
  by (simp add: upper_ascii upper_char_code)

lemma request_fields:
  "request_method (call_request self name ps) = Inr (JStr name)"
  "request_params (call_request self name (Some d)) = Inr (JObj d)"
  by (simp_all add: request_method_def request_params_def call_request_def message_def)

lemma add_to_memory_last:
  "last (add_to_memory now act res m) = \<lparr>action = act, result = res, timestamp = now\<rparr>"
  by (simp add: add_to_memory_step)

lemma buy_shares_sent:
  "sent (snd (buy_shares e market_id outcome amount s))
     = sent s @ [call_request (a2a_client s) ''a2a.buyShares''
                   (Some [(''marketId'', JStr market_id),
                          (''outcome'', JStr (upper e outcome)),
                          (''amount'', JFloat amount)])]"
  by (simp add: buy_shares_def except_Exception_snd buy_shares_try_def client_call_def
        split_beta call_posted split: sum.splits)

lemma buy_shares_success:
  assumes "fst (call e (a2a_client s) (sent s) ''a2a.buyShares''
                  (Some [(''marketId'', JStr market_id),
                         (''outcome'', JStr (upper e outcome)),
                         (''amount'', JFloat amount)])) = Inr res"
  shows "action_memory (snd (buy_shares e market_id outcome amount s))
           = add_to_memory (clock e) (''BUY_'' @ upper e outcome) res (action_memory s)"
    and "fst (buy_shares e market_id outcome amount s) = dumps e res"
  using assms
  by (simp_all add: buy_shares_def except_Exception_def buy_shares_try_def client_call_def
        split_beta)

lemma buy_shares_failure:
  assumes "fst (call e (a2a_client s) (sent s) ''a2a.buyShares''
                  (Some [(''marketId'', JStr market_id),
                         (''outcome'', JStr (upper e outcome)),
                         (''amount'', JFloat amount)])) = Inl ex"
  shows "action_memory (snd (buy_shares e market_id outcome amount s)) = action_memory s"
  using assms
  by (simp_all add: buy_shares_def except_Exception_def buy_shares_try_def client_call_def
        split_beta)

text \<open>
  C7. For every outcome string \<open>buy_shares\<close> posts exactly one request, of the method
  \<open>a2a.buyShares\<close>, whose parameter \<open>outcome\<close> is \<open>outcome.upper()\<close>. For an outcome
  of ASCII characters that form is given character by character: the code of a letter
  from \<open>a\<close> to \<open>z\<close> goes down by 32, to its capital, and every other character stays, so it
  has the length of the input, holds no lower-case letter and is unchanged by a second
  conversion. When the call returns, the memory is the old one after \<open>add_to_memory\<close>
  with the label \<open>BUY_\<close> followed by the upper-case outcome, so this entry is the newest
  one, and the tool returns the JSON text of the result. When the call raises, the memory
  is as before.
\<close>

theorem buy_shares_uppercases_and_records:
  "sent (snd (buy_shares e market_id outcome amount s))
     = sent s @ [call_request (a2a_client s) ''a2a.buyShares''
                   (Some [(''marketId'', JStr market_id),
                          (''outcome'', JStr (upper e outcome)),
                          (''amount'', JFloat amount)])]
   \<and> request_method (last (sent (snd (buy_shares e market_id outcome amount s))))
       = Inr (JStr ''a2a.buyShares'')
   \<and> request_params (last (sent (snd (buy_shares e market_id outcome amount s))))
       = Inr (JObj [(''marketId'', JStr market_id),
                    (''outcome'', JStr (upper e outcome)),
                    (''amount'', JFloat amount)])
   \<and> (list_all is_ascii outcome \<longrightarrow>
        map of_char (upper e outcome)
          = map (\<lambda>c. if 97 \<le> (of_char c :: nat) \<and> (of_char c :: nat) \<le> 122
                      then of_char c - 32 else (of_char c :: nat)) outcome
        \<and> length (upper e outcome) = length outcome
        \<and> upper e (upper e outcome) = upper e outcome
        \<and> set (upper e outcome) \<inter> set ''abcdefghijklmnopqrstuvwxyz'' = {})
   \<and> (\<not> list_all is_ascii outcome \<longrightarrow> upper e outcome = str_upper e outcome)
   \<and> (fst (call e (a2a_client s) (sent s) ''a2a.buyShares''
               (Some [(''marketId'', JStr market_id),
                      (''outcome'', JStr (upper e outcome)),
                      (''amount'', JFloat amount)])) = Inr res \<longrightarrow>
        action_memory (snd (buy_shares e market_id outcome amount s))
          = add_to_memory (clock e) (''BUY_'' @ upper e outcome) res (action_memory s)
        \<and> last (action_memory (snd (buy_shares e market_id outcome amount s)))
            = \<lparr>action = ''BUY_'' @ upper e outcome, result = res, timestamp = clock e\<rparr>
        \<and> fst (buy_shares e market_id outcome amount s) = dumps e res)
   \<and> (fst (call e (a2a_client s) (sent s) ''a2a.buyShares''
               (Some [(''marketId'', JStr market_id),
                      (''outcome'', JStr (upper e outcome)),
                      (''amount'', JFloat amount)])) = Inl ex \<longrightarrow>
        action_memory (snd (buy_shares e market_id outcome amount s)) = action_memory s)"
proof -
  have ascii: "map of_char (upper e outcome)
          = map (\<lambda>c. if 97 \<le> (of_char c :: nat) \<and> (of_char c :: nat) \<le> 122
                      then of_char c - 32 else (of_char c :: nat)) outcome
        \<and> length (upper e outcome) = length outcome
        \<and> upper e (upper e outcome) = upper e outcome
        \<and> set (upper e outcome) \<inter> set ''abcdefghijklmnopqrstuvwxyz'' = {}"
    if "list_all is_ascii outcome"
    using that upper_codes [of outcome e] upper_idem [of outcome e]
      upper_no_lower [of outcome e]
    by (simp add: upper_ascii del: set_simps list.set)
  have other: "upper e outcome = str_upper e outcome" if "\<not> list_all is_ascii outcome"
    using that by (simp add: upper_def)
  show ?thesis
    using buy_shares_success [of e s market_id outcome amount res]
      buy_shares_failure [of e s market_id outcome amount ex] ascii other
    by (simp add: buy_shares_sent request_fields add_to_memory_last
          del: set_simps list.set)
qed

theorem buy_shares_uppercases_and_records_witness:
  "list_all is_ascii ''yes''
   \<and> upper (reply_env (ok_response result_body)) ''yes'' = ''YES''
   \<and> upper (reply_env (ok_response result_body)) ''Yes'' = ''YES''
   \<and> upper (reply_env (ok_response result_body)) ''YES'' = ''YES''
   \<and> upper (reply_env (ok_response result_body)) ''no'' = ''NO''
   \<and> upper (reply_env (ok_response result_body)) ''maybe-2'' = ''MAYBE-2''
   \<and> map request_params (sent (snd (buy_shares (reply_env (ok_response result_body))
                                         ''m1'' ''yes'' 10 example_state)))
       = [Inr (JObj [(''marketId'', JStr ''m1''), (''outcome'', JStr ''YES''),
                     (''amount'', JFloat 10)])]
   \<and> map request_params (sent (snd (buy_shares (reply_env (ok_response result_body))
                                         ''m1'' ''no'' 10 example_state)))
       = [Inr (JObj [(''marketId'', JStr ''m1''), (''outcome'', JStr ''NO''),
                     (''amount'', JFloat 10)])]
   \<and> action_memory (snd (buy_shares (reply_env (ok_response result_body))
                             ''m1'' ''yes'' 10 example_state))
       = [\<lparr>action = ''BUY_YES'', result = JObj [(''balance'', JInt 100)],
           timestamp = ''2025-01-01T00:00:00''\<rparr>]
   \<and> action_memory (snd (buy_shares (reply_env (ok_response result_body))
                             ''m1'' ''no'' 10 example_state))
       = [\<lparr>action = ''BUY_NO'', result = JObj [(''balance'', JInt 100)],
           timestamp = ''2025-01-01T00:00:00''\<rparr>]
   \<and> action_memory (snd (buy_shares (reply_env unavailable) ''m1'' ''yes'' 10 example_state))
       = []"
  using
    buy_shares_uppercases_and_records
      [where e = "reply_env (ok_response result_body)" and market_id = "''m1''"
         and outcome = "''yes''" and amount = 10 and s = example_state
         and res = "JObj [(''balance'', JInt 100)]"]
    buy_shares_uppercases_and_records
      [where e = "reply_env (ok_response result_body)" and market_id = "''m1''"
         and outcome = "''no''" and amount = 10 and s = example_state
         and res = "JObj [(''balance'', JInt 100)]"]
    buy_shares_uppercases_and_records
      [where e = "reply_env unavailable" and market_id = "''m1''"
         and outcome = "''yes''" and amount = 10 and s = example_state
         and ex = "Exn HTTPStatusError ''Server error''"]
  by (simp add: reply_env_def ok_response_def unavailable_def is_success_def result_body_def
        example_state_def call_def decode_def Let_def upper_def upper_char_def is_ascii_def
        add_to_memory_def request_fields)

lemma create_post_sent:
  "sent (snd (create_post e content s))
     = sent s @ [call_request (a2a_client s) ''a2a.createPost''
                   (Some [(''content'', JStr (take 280 content)), (''type'', JStr ''post'')])]"
  by (simp add: create_post_def except_Exception_snd create_post_try_def client_call_def
        split_beta call_posted split: sum.splits)

lemma create_post_success:
  assumes "fst (call e (a2a_client s) (sent s) ''a2a.createPost''
                  (Some [(''content'', JStr (take 280 content)), (''type'', JStr ''post'')]))
             = Inr res"
  shows "action_memory (snd (create_post e content s))
           = add_to_memory (clock e) ''CREATE_POST'' res (action_memory s)"
    and "fst (create_post e content s) = dumps e res"
  using assms
  by (simp_all add: create_post_def except_Exception_def create_post_try_def client_call_def
        split_beta)

lemma create_post_failure:
  assumes "fst (call e (a2a_client s) (sent s) ''a2a.createPost''
                  (Some [(''content'', JStr (take 280 content)), (''type'', JStr ''post'')]))
             = Inl ex"
  shows "action_memory (snd (create_post e content s)) = action_memory s"
  using assms
  by (simp_all add: create_post_def except_Exception_def create_post_try_def client_call_def
        split_beta)

text \<open>
  C8. For every content \<open>create_post\<close> posts exactly one request, of the method
  \<open>a2a.createPost\<close>, whose parameter \<open>content\<close> is the first 280 characters of the
  input (all of it when it is shorter) and whose parameter \<open>type\<close> is \<open>post\<close>. When the
  call returns, the memory is the old one after \<open>add_to_memory\<close> with the label
  \<open>CREATE_POST\<close>, and this entry is the newest one; when the call raises, the memory is
  as before.
\<close>

theorem create_post_truncates_and_records:
  "sent (snd (create_post e content s))
     = sent s @ [call_request (a2a_client s) ''a2a.createPost''
                   (Some [(''content'', JStr (take 280 content)), (''type'', JStr ''post'')])]
   \<and> request_method (last (sent (snd (create_post e content s)))) = Inr (JStr ''a2a.createPost'')
   \<and> request_params (last (sent (snd (create_post e content s))))
       = Inr (JObj [(''content'', JStr (take 280 content)), (''type'', JStr ''post'')])
   \<and> length (take 280 content) = min 280 (length content)
   \<and> length (take 280 content) \<le> 280
   \<and> take 280 content @ drop 280 content = content
   \<and> (fst (call e (a2a_client s) (sent s) ''a2a.createPost''
               (Some [(''content'', JStr (take 280 content)), (''type'', JStr ''post'')]))
          = Inr res \<longrightarrow>
        action_memory (snd (create_post e content s))
          = add_to_memory (clock e) ''CREATE_POST'' res (action_memory s)
        \<and> last (action_memory (snd (create_post e content s)))
            = \<lparr>action = ''CREATE_POST'', result = res, timestamp = clock e\<rparr>
        \<and> fst (create_post e content s) = dumps e res)
   \<and> (fst (call e (a2a_client s) (sent s) ''a2a.createPost''
               (Some [(''content'', JStr (take 280 content)), (''type'', JStr ''post'')]))
          = Inl ex \<longrightarrow>
        action_memory (snd (create_post e content s)) = action_memory s)"
  using create_post_success [of e s content res] create_post_failure [of e s content ex]
  by (simp add: create_post_sent request_fields add_to_memory_last)

theorem create_post_truncates_and_records_witness:
  "map request_params (sent (snd (create_post (reply_env (ok_response result_body))
                                       (replicate 500 CHR ''x'') example_state)))
       = [Inr (JObj [(''content'', JStr (replicate 280 CHR ''x'')), (''type'', JStr ''post'')])]
   \<and> action_memory (snd (create_post (reply_env (ok_response result_body))
                             (replicate 500 CHR ''x'') example_state))
       = [\<lparr>action = ''CREATE_POST'', result = JObj [(''balance'', JInt 100)],
           timestamp = ''2025-01-01T00:00:00''\<rparr>]
   \<and> action_memory (snd (create_post (reply_env unavailable) ''hello'' example_state)) = []"
  using
    create_post_truncates_and_records
      [where e = "reply_env (ok_response result_body)" and content = "replicate 500 CHR ''x''"
         and s = example_state and res = "JObj [(''balance'', JInt 100)]"]
    create_post_truncates_and_records
      [where e = "reply_env unavailable" and content = "''hello''" and s = example_state
         and ex = "Exn HTTPStatusError ''Server error''"]
  by (simp add: reply_env_def ok_response_def unavailable_def is_success_def result_body_def
        example_state_def call_def decode_def Let_def add_to_memory_def request_fields)

lemma get_portfolio_first_call:
  assumes "call e (a2a_client s) (sent s) ''a2a.getBalance'' (Some []) = (Inr bal, cb, pb)"
  shows "sent (snd (get_portfolio e s))
           = sent s @ [call_request (a2a_client s) ''a2a.getBalance'' (Some []),
                       call_request cb ''a2a.getPositions''
                         (Some [(''userId'', JStr (agent_id (a2a_client s)))])]"
proof -
  have cb: "cb = (a2a_client s)\<lparr>message_id := message_id (a2a_client s) + 1\<rparr>"
    using call_client [of e "a2a_client s" "sent s" "''a2a.getBalance''" "Some []"] assms
    by simp
  have pb: "pb = sent s @ [call_request (a2a_client s) ''a2a.getBalance'' (Some [])]"
    using call_posted [of e "a2a_client s" "sent s" "''a2a.getBalance''" "Some []"] assms
    by simp
  show ?thesis
    using assms cb pb
    by (simp add: get_portfolio_def except_Exception_snd get_portfolio_try_def
          client_call_def split_beta call_posted call_client split: sum.splits)
qed

lemma get_portfolio_payload:
  assumes "call e (a2a_client s) (sent s) ''a2a.getBalance'' (Some []) = (Inr (JObj bal), cb, pb)"
    and "call e cb pb ''a2a.getPositions'' (Some [(''userId'', JStr (agent_id (a2a_client s)))])
           = (Inr positions, cp, pp)"
  shows "fst (get_portfolio e s)
           = dumps e (JObj [(''balance'', case map_of bal ''balance'' of None \<Rightarrow> JInt 0 | Some v \<Rightarrow> v),
                            (''positions'', positions)])"
proof -
  have cb: "cb = (a2a_client s)\<lparr>message_id := message_id (a2a_client s) + 1\<rparr>"
    using call_client [of e "a2a_client s" "sent s" "''a2a.getBalance''" "Some []"] assms(1)
    by simp
  have "agent_id cb = agent_id (a2a_client s)" using cb by simp
  then show ?thesis
    using assms
    by (simp add: get_portfolio_def except_Exception_def get_portfolio_try_def
          client_call_def)
qed

text \<open>
  C10, as the code has it. When the call of \<open>a2a.getBalance\<close> returns an object and the
  call of \<open>a2a.getPositions\<close> returns, \<open>get_portfolio\<close> returns the JSON text of the
  payload with exactly the keys \<open>balance\<close> and \<open>positions\<close>: under \<open>balance\<close> the
  field \<open>balance\<close> of the first result, or the number 0 when the result has no such
  field, and under \<open>positions\<close> the second result. The second request carries the
  client's agent id as its parameter \<open>userId\<close>.
\<close>

theorem get_portfolio_merges_object_balance:
  "call e (a2a_client s) (sent s) ''a2a.getBalance'' (Some []) = (Inr (JObj bal), cb, pb) \<Longrightarrow>
   call e cb pb ''a2a.getPositions'' (Some [(''userId'', JStr (agent_id (a2a_client s)))])
     = (Inr positions, cp, pp) \<Longrightarrow>
     fst (get_portfolio e s)
       = dumps e (JObj [(''balance'', case map_of bal ''balance'' of None \<Rightarrow> JInt 0 | Some v \<Rightarrow> v),
                        (''positions'', positions)])
   \<and> (map_of bal ''balance'' = None \<longrightarrow>
        fst (get_portfolio e s)
          = dumps e (JObj [(''balance'', JInt 0), (''positions'', positions)]))
   \<and> sent (snd (get_portfolio e s))
       = sent s @ [call_request (a2a_client s) ''a2a.getBalance'' (Some []),
                   call_request cb ''a2a.getPositions''
                     (Some [(''userId'', JStr (agent_id (a2a_client s)))])]
   \<and> request_params (last (sent (snd (get_portfolio e s))))
       = Inr (JObj [(''userId'', JStr (agent_id (a2a_client s)))])"
  using get_portfolio_payload [of e s bal cb pb positions cp pp]
    get_portfolio_first_call [of e s "JObj bal" cb pb]
  by (simp add: request_fields)

theorem get_portfolio_merges_object_balance_witness:
  "fst (get_portfolio (reply_env (ok_response result_body)) example_state)
     = JObj [(''balance'', JInt 100), (''positions'', JObj [(''balance'', JInt 100)])]
   \<and> fst (get_portfolio (reply_env (ok_response (JObj [(''result'', JObj [])]))) example_state)
     = JObj [(''balance'', JInt 0), (''positions'', JObj [])]
   \<and> map request_params
        (sent (snd (get_portfolio (reply_env (ok_response result_body)) example_state)))
     = [Inr (JObj []), Inr (JObj [(''userId'', JStr ''11155111:4242'')])]"
  using
    get_portfolio_merges_object_balance
      [where e = "reply_env (ok_response result_body)" and s = example_state
         and bal = "[(''balance'', JInt 100)]"
         and cb = "example_client\<lparr>message_id := 2\<rparr>"
         and pb = "[call_request example_client ''a2a.getBalance'' (Some [])]"
         and positions = "JObj [(''balance'', JInt 100)]"
         and cp = "example_client\<lparr>message_id := 3\<rparr>"
         and pp = "[call_request example_client ''a2a.getBalance'' (Some []),
                   call_request (example_client\<lparr>message_id := 2\<rparr>) ''a2a.getPositions''
                     (Some [(''userId'', JStr (agent_id example_client))])]"]
    get_portfolio_merges_object_balance
      [where e = "reply_env (ok_response (JObj [(''result'', JObj [])]))" and s = example_state
         and bal = "[]"
         and cb = "example_client\<lparr>message_id := 2\<rparr>"
         and pb = "[call_request example_client ''a2a.getBalance'' (Some [])]"
         and positions = "JObj []"
         and cp = "example_client\<lparr>message_id := 3\<rparr>"
         and pp = "[call_request example_client ''a2a.getBalance'' (Some []),
                   call_request (example_client\<lparr>message_id := 2\<rparr>) ''a2a.getPositions''
                     (Some [(''userId'', JStr (agent_id example_client))])]"]
  by (simp add: reply_env_def ok_response_def is_success_def result_body_def
        example_state_def example_client_def BabylonA2AClient_def call_def decode_def Let_def
        request_fields str_int_def digits.simps digit_def)

text \<open>
  C10, as it is stated, fails where the result of \<open>a2a.getBalance\<close> is not an object:
  both calls return (here the empty list), and the tool returns the payload with the key
  \<open>error\<close>, since a list has no method \<open>get\<close>.
\<close>

theorem get_portfolio_list_balance_counterexample:
  "fst (call (reply_env (ok_response list_body)) (a2a_client example_state)
          (sent example_state) ''a2a.getBalance'' (Some [])) = Inr (JArr [])
   \<and> fst (call (reply_env (ok_response list_body))
            (fst (snd (call (reply_env (ok_response list_body)) (a2a_client example_state)
                         (sent example_state) ''a2a.getBalance'' (Some []))))
            (snd (snd (call (reply_env (ok_response list_body)) (a2a_client example_state)
                         (sent example_state) ''a2a.getBalance'' (Some []))))
            ''a2a.getPositions''
            (Some [(''userId'', JStr (agent_id (a2a_client example_state)))])) = Inr (JArr [])
   \<and> fst (get_portfolio (reply_env (ok_response list_body)) example_state)
       = JObj [(''error'',
                JStr (quote ''list'' @ '' object has no attribute '' @ quote ''get''))]
   \<and> \<not> has_field ''balance'' (fst (get_portfolio (reply_env (ok_response list_body)) example_state))
   \<and> \<not> has_field ''positions'' (fst (get_portfolio (reply_env (ok_response list_body)) example_state))"
  by (simp add: reply_env_def ok_response_def is_success_def list_body_def
        example_state_def call_def decode_def Let_def get_portfolio_def except_Exception_def
        get_portfolio_try_def client_call_def)


section \<open>Properties of the main loop\<close>

lemma tick_raises:
  "tick ti (Raises ex, sl) st =
     (case sl of SleepInterrupted \<Rightarrow> Inl | Wakes \<Rightarrow> Inr)
       (st\<lparr>tick_count := tick_count st + 1,
           trace := trace st @ [PrintTick (tick_count st + 1),
                                PrintError (tick_count st + 1) (exn_str ex),
                                PrintSleeping ti, Sleep ti]\<rparr>)"
  by (cases sl) (simp_all add: tick_def Let_def)

lemma tick_completes:
  assumes "fst w \<noteq> DecideInterrupted" "snd w = Wakes"
  shows "\<exists>st'. tick ti w st = Inr st' \<and> tick_count st' = tick_count st + 1"
  using assms by (cases "fst w") (simp_all add: tick_def Let_def)

lemma main_loop_completes:
  assumes "list_all (\<lambda>w. fst w \<noteq> DecideInterrupted \<and> snd w = Wakes) ws"
  shows "\<exists>st'. main_loop ti ws st = Inr st' \<and> tick_count st' = tick_count st + int (length ws)"
  using assms
proof (induction ws arbitrary: st)
  case Nil
  then show ?case by simp
next
  case (Cons w ws)
  then obtain st1 where st1: "tick ti w st = Inr st1" "tick_count st1 = tick_count st + 1"
    using tick_completes [of w ti st] by auto
  from Cons obtain st' where "main_loop ti ws st1 = Inr st'"
    "tick_count st' = tick_count st1 + int (length ws)"
    by fastforce
  then show ?case using st1 by simp
qed

text \<open>
  C5. A tick whose \<open>decide\<close> raises an exception counts: the counter goes up by one, the
  error is printed, and the sleep of the fixed interval is started, whatever happens to
  the sleep afterwards. When the sleep returns the tick ends inside the loop, which goes
  on with the next tick from that state. Over any run of ticks without a keyboard
  interrupt, failing or not, the loop is still running at the end and has counted every
  tick.
\<close>

theorem failed_tick_keeps_loop_running:
  "tick ti (Raises ex, Wakes) st
     = Inr (st\<lparr>tick_count := tick_count st + 1,
               trace := trace st @ [PrintTick (tick_count st + 1),
                                    PrintError (tick_count st + 1) (exn_str ex),
                                    PrintSleeping ti, Sleep ti]\<rparr>)
   \<and> tick_count (after_tick (tick ti (Raises ex, sl) st)) = tick_count st + 1
   \<and> trace (after_tick (tick ti (Raises ex, sl) st))
       = trace st @ [PrintTick (tick_count st + 1),
                     PrintError (tick_count st + 1) (exn_str ex),
                     PrintSleeping ti, Sleep ti]
   \<and> main_loop ti ((Raises ex, Wakes) # ws) st
       = main_loop ti ws
           (st\<lparr>tick_count := tick_count st + 1,
               trace := trace st @ [PrintTick (tick_count st + 1),
                                    PrintError (tick_count st + 1) (exn_str ex),
                                    PrintSleeping ti, Sleep ti]\<rparr>)
   \<and> (list_all (\<lambda>w. fst w \<noteq> DecideInterrupted \<and> snd w = Wakes) ws \<longrightarrow>
        (\<exists>st'. main_loop ti ws st = Inr st'
               \<and> tick_count st' = tick_count st + int (length ws)))"
  using main_loop_completes [of ws ti st]
  by (cases sl) (simp_all add: tick_raises after_tick_def)

theorem failed_tick_keeps_loop_running_witness:
  "list_all (\<lambda>w. fst w \<noteq> DecideInterrupted \<and> snd w = Wakes) failing_run
   \<and> main_phase4 30 failing_run
       = Inr \<lparr>tick_count = 3,
              trace = [PrintTick 1, PrintError 1 ''rate limit'', PrintSleeping 30, Sleep 30,
                       PrintTick 2, PrintComplete 2 ''hold'', PrintSleeping 30, Sleep 30,
                       PrintTick 3, PrintError 3 ''A2A Error: no such market'',
                       PrintSleeping 30, Sleep 30]\<rparr>
   \<and> isl (main_phase4 30 [(Raises (Exn Exception ''x''), Wakes), (DecideInterrupted, Wakes)])"
  using failed_tick_keeps_loop_running
          [where ti = 30 and ws = failing_run and st = "\<lparr>tick_count = 0, trace = []\<rparr>"]
  by (simp add: failing_run_def main_phase4_def tick_def Let_def)

end
